theory Spec2Isabelle
  imports Main "HOL-Library.Word"
begin

section \<open>Python values used by \<open>qr.py\<close>\<close>

text \<open>
  A Python \<open>str\<close> is a sequence of Unicode code points, so it is modelled as a list of
  code points; \<open>ascii\<close> turns a literal of the theory into such a list. The source's
  literals contain a few characters beyond ASCII (the icons of the page), which are
  written by their code point.
\<close>

type_synonym pystr = "nat list"

type_synonym bytes = "8 word list"

definition ascii :: "string \<Rightarrow> pystr" where
  "ascii s = map of_char s"

text \<open>
  \<open>str.isspace\<close> for one code point: the white-space table of CPython
  (bidirectional type WS, B or S, or category Zs).
\<close>

definition py_isspace :: "nat \<Rightarrow> bool" where
  "py_isspace c \<longleftrightarrow>
     (0x09 \<le> c \<and> c \<le> 0x0D) \<or> (0x1C \<le> c \<and> c \<le> 0x20) \<or> c = 0x85 \<or> c = 0xA0 \<or>
     c = 0x1680 \<or> (0x2000 \<le> c \<and> c \<le> 0x200A) \<or> c = 0x2028 \<or> c = 0x2029 \<or>
     c = 0x202F \<or> c = 0x205F \<or> c = 0x3000"

text \<open>\<open>s.strip()\<close>: leading and trailing white space removed.\<close>

definition py_strip :: "pystr \<Rightarrow> pystr" where
  "py_strip s = rev (dropWhile py_isspace (rev (dropWhile py_isspace s)))"

text \<open>
  \<open>s.lower()\<close>. The source applies it to the selected size label only, which is one of
  four ASCII strings; on ASCII text \<open>lower\<close> moves \<open>A\<close>..\<open>Z\<close> to \<open>a\<close>..\<open>z\<close> and keeps
  every other character.
\<close>

definition lower_char :: "nat \<Rightarrow> nat" where
  "lower_char c = (if 0x41 \<le> c \<and> c \<le> 0x5A then c + 0x20 else c)"

definition py_lower :: "pystr \<Rightarrow> pystr" where
  "py_lower s = map lower_char s"

text \<open>\<open>str(n)\<close> for an integer, as the f-strings format it: decimal digits, a sign if negative.\<close>

fun digits :: "nat \<Rightarrow> pystr" where
  "digits n = (if n < 10 then [0x30 + n] else digits (n div 10) @ [0x30 + n mod 10])"

definition str_int :: "int \<Rightarrow> pystr" where
  "str_int i = (if i < 0 then 0x2D # digits (nat (- i)) else digits (nat i))"

section \<open>The libraries the page calls\<close>

text \<open>
  \<open>qr.py\<close> encodes nothing itself: it configures a \<open>qrcode.QRCode\<close>, adds the data,
  calls \<open>make\<close> and \<open>make_image\<close>. Everything the source hands to the library in these
  four calls is one record.
\<close>

datatype error_correction = ERROR_CORRECT_L | ERROR_CORRECT_M | ERROR_CORRECT_Q | ERROR_CORRECT_H

record qr_call =
  qr_version :: int
  qr_error_correction :: error_correction
  qr_box_size :: int
  qr_border :: int
  qr_data :: pystr
  make_fit :: bool
  fill_color :: pystr
  back_color :: pystr

text \<open>
  The libraries are parameters of the model. \<open>qrcode_lib\<close> is the \<open>qrcode\<close> package:
  it answers a call with an image, or raises an exception, which is \<open>Inl\<close> of the
  exception's message \<open>str(e)\<close>. \<open>png_save\<close> is \<open>img.save(buf, format="PNG")\<close> followed by
  reading the buffer, and \<open>b64encode\<close> is \<open>base64.b64encode(...).decode()\<close>.
\<close>

record 'img env =
  qrcode_lib :: "qr_call \<Rightarrow> pystr + 'img"
  png_save :: "'img \<Rightarrow> bytes"
  b64encode :: "bytes \<Rightarrow> pystr"

section \<open>What the page shows\<close>

text \<open>
  The calls to Streamlit, in the order the script makes them, are the output of one
  render cycle. A \<open>with\<close> block is bracketed by its opening call and \<open>End_with\<close>.
\<close>

datatype image_width = Use_column_width | Width int

datatype st_call =
    St_set_page_config pystr pystr pystr
  | St_title pystr
  | St_header pystr
  | St_markdown pystr bool
  | St_text_area pystr int pystr
  | St_columns nat
  | With_column nat
  | St_selectbox pystr "pystr list" nat
  | St_slider pystr int int int pystr
  | With_spinner pystr
  | With_expander pystr
  | End_with
  | St_image bytes pystr image_width
  | St_info pystr
  | St_error pystr
  | St_code pystr
  | St_caption pystr

text \<open>
  The state threaded through a render cycle: the Streamlit calls made so far and the
  calls made to the QR library so far.
\<close>

record ui =
  out :: "st_call list"
  lib_calls :: "qr_call list"

definition emits :: "st_call list \<Rightarrow> ui \<Rightarrow> ui" where
  "emits cs s = s\<lparr>out := out s @ cs\<rparr>"

section \<open>\<open>generate_qr_code\<close>\<close>

text \<open>
  A Python function returns a value or raises: the result is \<open>Inr\<close> of the value
  (\<open>Some img\<close>, or \<open>None\<close>) or \<open>Inl\<close> of the message of the exception raised.
\<close>

text \<open>Lines 22 to 34: what \<open>generate_qr_code\<close> hands to the library.\<close>

definition qr_request :: "pystr \<Rightarrow> int \<Rightarrow> int \<Rightarrow> qr_call" where
  "qr_request dat bsize bord =
     \<lparr>qr_version = 1, qr_error_correction = ERROR_CORRECT_L,
      qr_box_size = bsize, qr_border = bord, qr_data = dat, make_fit = True,
      fill_color = ascii ''black'', back_color = ascii ''white''\<rparr>"

definition generate_qr_code ::
  "'img env \<Rightarrow> pystr \<Rightarrow> int \<Rightarrow> int \<Rightarrow> ui \<Rightarrow> (pystr + 'img option) \<times> ui" where
  "generate_qr_code env dat bsize bord s =
     (let s' = s\<lparr>lib_calls := lib_calls s @ [qr_request dat bsize bord]\<rparr>
      in case qrcode_lib env (qr_request dat bsize bord) of
           Inr img \<Rightarrow> (Inr (Some img), s')
         | Inl e \<Rightarrow> (Inr None, emits [St_error (ascii ''Error generating QR code: '' @ e)] s'))"

section \<open>\<open>get_image_download_link\<close>\<close>

definition get_image_download_link :: "'img env \<Rightarrow> 'img \<Rightarrow> pystr \<Rightarrow> pystr" where
  \<open>get_image_download_link env img filename =
     (let buffered = png_save env img;
          img_str = b64encode env buffered
      in ascii ''<a href="data:image/png;base64,'' @ img_str @ ascii ''" download="'' @ filename
           @ ascii ''">Download QR Code</a>'')\<close>

section \<open>\<open>main\<close>\<close>

text \<open>
  The widgets' values are the inputs of a render cycle: the text of the text area, the
  label the select box returns and the value of the slider.
\<close>

definition size_options :: "pystr list" where
  "size_options = [ascii ''Small'', ascii ''Medium'', ascii ''Large'', ascii ''Extra Large'']"

text \<open>The dictionary \<open>size_mapping\<close>, in the order of the literal.\<close>

definition size_mapping :: "(pystr \<times> int) list" where
  "size_mapping =
     [(ascii ''Small'', 5), (ascii ''Medium'', 10), (ascii ''Large'', 15), (ascii ''Extra Large'', 20)]"

text \<open>
  How a render cycle ends: the script runs to its last line, or an exception leaves it:
  the \<open>KeyError\<close> of the dictionary lookup, or an exception that no handler caught.
\<close>

datatype outcome = Completed | KeyError pystr | Uncaught pystr

text \<open>Lines 63 to 94: the page down to the select box.\<close>

definition page_top :: "st_call list" where
  "page_top =
     [St_set_page_config (ascii ''QR Code Generator'') [0x1F4F1] (ascii ''centered''),
      St_title ([0x1F4F1] @ ascii '' QR Code Generator''),
      St_markdown (ascii ''Generate QR codes from any text, URL, or data!'') False,
      St_header (ascii ''Input''),
      St_text_area (ascii ''Enter text, URL, or any data to generate QR code:'') 100
        (ascii ''Enter your text here... (e.g., https://example.com, Hello World!, contact info, etc.)''),
      St_header (ascii ''Customization''),
      St_columns 2,
      With_column 1,
      St_selectbox (ascii ''QR Code Size:'') size_options 1]"

text \<open>Lines 105 to 116: the slider and the header of the result.\<close>

definition page_middle :: "st_call list" where
  "page_middle =
     [End_with,
      With_column 2,
      St_slider (ascii ''Border Size:'') 1 10 4 (ascii ''Border size around the QR code''),
      End_with,
      St_header (ascii ''Generated QR Code'')]"

text \<open>Lines 169 to 184: the footer.\<close>

definition page_footer :: "st_call list" where
  "page_footer =
     [St_markdown (ascii ''---'') False,
      St_markdown (ascii ''### '' @ [0x1F4A1] @ ascii '' Usage Tips'') False,
      St_markdown
        ([10] @ ascii ''    - **URLs**: Include `http://` or `https://` for web links'' @
         [10] @ ascii ''    - **Contact Info**: Use vCard format for contact details'' @
         [10] @ ascii ''    - **WiFi**: Use format `WIFI:T:WPA;S:network_name;P:password;;`'' @
         [10] @ ascii ''    - **Email**: Use `mailto:email@example.com`'' @
         [10] @ ascii ''    - **Phone**: Use `tel:+1234567890`'' @
         [10] @ ascii ''    '') False,
      St_markdown (ascii ''### '' @ [0x2139, 0xFE0F] @ ascii '' About'') False,
      St_markdown
        ([10] @ ascii ''    This QR code generator creates high-quality QR codes that can be scanned by any QR code reader.'' @
         [10] @ ascii ''    The generated codes support various data types including text, URLs, contact information, and more.'' @
         [10] @ ascii ''    '') False]"

text \<open>Line 138: the file name handed to \<open>get_image_download_link\<close>.\<close>

definition download_filename :: "pystr \<Rightarrow> pystr" where
  "download_filename selected = ascii ''qrcode_'' @ py_lower selected @ ascii ''.png''"

text \<open>Lines 126 to 146: the body of \<open>if qr_img:\<close>.\<close>

definition displaying :: "'img env \<Rightarrow> 'img \<Rightarrow> pystr \<Rightarrow> pystr \<Rightarrow> int \<Rightarrow> st_call list" where
  "displaying env qr_img user_input selected bord =
     [St_image (png_save env qr_img) (ascii ''Your QR Code'') Use_column_width,
      St_markdown (ascii ''### Download'') False,
      St_markdown (get_image_download_link env qr_img (download_filename selected)) True,
      St_info ([0x2705] @ ascii '' QR Code generated successfully! Size: '' @ selected
                 @ ascii '', Border: '' @ str_int bord),
      With_expander (ascii ''Preview Input Data''),
      St_code user_input,
      End_with]"

text \<open>Lines 148 to 150: the handler of the \<open>try\<close> in \<open>main\<close>.\<close>

definition except_handler :: "pystr \<Rightarrow> st_call list" where
  "except_handler e =
     [St_error ([0x274C] @ ascii '' Error generating QR code: '' @ e),
      St_info (ascii ''Please check your input and try again.'')]"

text \<open>
  Lines 119 to 150: the \<open>try\<close> statement. An exception raised by \<open>generate_qr_code\<close>
  leaves the spinner and reaches the handler; the value \<open>None\<close> skips the body of the
  \<open>if\<close>; an image is truthy.
\<close>

definition generating :: "'img env \<Rightarrow> pystr \<Rightarrow> pystr \<Rightarrow> int \<Rightarrow> int \<Rightarrow> ui \<Rightarrow> ui" where
  "generating env user_input selected box_size bord s =
     (let (r, s1) = generate_qr_code env user_input box_size bord
                      (emits [With_spinner (ascii ''Generating QR code...'')] s);
          s2 = emits [End_with] s1
      in case r of
           Inl e \<Rightarrow> emits (except_handler e) s2
         | Inr None \<Rightarrow> s2
         | Inr (Some qr_img) \<Rightarrow> emits (displaying env qr_img user_input selected bord) s2)"

definition example_text :: pystr where
  "example_text = ascii ''Hello, World! This is a sample QR code.''"

text \<open>Lines 152 to 166: the \<open>else\<close> branch, outside any \<open>try\<close>.\<close>

definition show_example :: "'img env \<Rightarrow> ui \<Rightarrow> outcome \<times> ui" where
  "show_example env s =
     (let (r, s1) = generate_qr_code env example_text 10 4
                      (emits [St_info ([0x1F446] @ ascii '' Enter some text above to generate your QR code''),
                              St_markdown (ascii ''### Example'') False] s)
      in case r of
           Inl e \<Rightarrow> (Uncaught e, s1)
         | Inr None \<Rightarrow> (Completed, s1)
         | Inr (Some example_qr) \<Rightarrow>
             (Completed,
              emits [St_image (png_save env example_qr) (ascii ''Example QR Code'') (Width 300),
                     St_caption (ascii ''This is what your QR code will look like'')] s1))"

definition main :: "'img env \<Rightarrow> pystr \<Rightarrow> pystr \<Rightarrow> int \<Rightarrow> outcome \<times> ui" where
  "main env user_input selected bord =
     (let s0 = emits page_top \<lparr>out = [], lib_calls = []\<rparr>
      in case map_of size_mapping selected of
           None \<Rightarrow> (KeyError selected, emits [End_with] s0)
         | Some box_size \<Rightarrow>
             (let s1 = emits page_middle s0;
                  (r, s2) = (if py_strip user_input \<noteq> []
                             then (Completed, generating env user_input selected box_size bord s1)
                             else show_example env s1)
              in case r of
                   Completed \<Rightarrow> (Completed, emits page_footer s2)
                 | _ \<Rightarrow> (r, s2)))"

section \<open>Reading a render cycle\<close>

text \<open>Which Streamlit calls show an image, the download link and the preview of the input.\<close>

definition is_image :: "st_call \<Rightarrow> bool" where
  "is_image c = (case c of St_image _ _ _ \<Rightarrow> True | _ \<Rightarrow> False)"

definition is_download_link :: "st_call \<Rightarrow> bool" where
  "is_download_link c = (case c of St_markdown _ html \<Rightarrow> html | _ \<Rightarrow> False)"

definition is_input_preview :: "st_call \<Rightarrow> bool" where
  "is_input_preview c = (case c of St_code _ \<Rightarrow> True | With_expander _ \<Rightarrow> True | _ \<Rightarrow> False)"

text \<open>
  A stand-in for the three libraries, to run the model on concrete inputs: its encoder
  has room for 40 code points and raises \<open>data overflow\<close> beyond, and its image is
  the number of code points encoded.
\<close>

definition stub_env :: "nat env" where
  "stub_env =
     \<lparr>qrcode_lib = (\<lambda>c. if 40 < length (qr_data c) then Inl (ascii ''data overflow'')
                          else Inr (length (qr_data c))),
      png_save = (\<lambda>img. [0x89, 0x50, 0x4E, 0x47, of_nat img]),
      b64encode = (\<lambda>bs. map (\<lambda>b. 0x41 + unat b mod 26) bs)\<rparr>"

definition long_payload :: pystr where
  "long_payload = ascii ''https://example.com/a/very/long/path/to/encode''"

text \<open>The state at the start of a render cycle.\<close>

definition fresh :: ui where
  "fresh = \<lparr>out = [], lib_calls = []\<rparr>"


section \<open>Basic facts\<close>

lemma py_strip_Nil_iff: "py_strip s = [] \<longleftrightarrow> (\<forall>c\<in>set s. py_isspace c)"
proof
  assume "py_strip s = []"
  then have "\<forall>c\<in>set (dropWhile py_isspace s). py_isspace c"
    by (simp add: py_strip_def)
  then have "dropWhile py_isspace s = []"
    by (metis hd_dropWhile hd_in_set)
  then show "\<forall>c\<in>set s. py_isspace c"
    by simp
next
  assume "\<forall>c\<in>set s. py_isspace c"
  then have d: "dropWhile py_isspace s = []"
    by simp
  show "py_strip s = []"
    unfolding py_strip_def d by simp
qed

lemma generate_qr_code_raises:
  "qrcode_lib env (qr_request dat bsize bord) = Inl e \<Longrightarrow>
   generate_qr_code env dat bsize bord s =
     (Inr None, \<lparr>out = out s @ [St_error (ascii ''Error generating QR code: '' @ e)],
                 lib_calls = lib_calls s @ [qr_request dat bsize bord]\<rparr>)"
  by (simp add: generate_qr_code_def emits_def)

lemma generate_qr_code_returns:
  "qrcode_lib env (qr_request dat bsize bord) = Inr img \<Longrightarrow>
   generate_qr_code env dat bsize bord s =
     (Inr (Some img), \<lparr>out = out s, lib_calls = lib_calls s @ [qr_request dat bsize bord]\<rparr>)"
  by (simp add: generate_qr_code_def emits_def)

lemma main_failed:
  assumes "py_strip user_input \<noteq> []" "map_of size_mapping selected = Some box"
    "qrcode_lib env (qr_request user_input box bord) = Inl e"
  shows "main env user_input selected bord =
    (Completed, \<lparr>out = page_top @ page_middle @
        [With_spinner (ascii ''Generating QR code...''),
         St_error (ascii ''Error generating QR code: '' @ e), End_with] @ page_footer,
      lib_calls = [qr_request user_input box bord]\<rparr>)"
  using assms by (simp add: main_def generating_def emits_def generate_qr_code_raises)

lemma main_displaying:
  assumes "py_strip user_input \<noteq> []" "map_of size_mapping selected = Some box"
    "qrcode_lib env (qr_request user_input box bord) = Inr img"
  shows "main env user_input selected bord =
    (Completed, \<lparr>out = page_top @ page_middle @
        [With_spinner (ascii ''Generating QR code...''), End_with] @
        displaying env img user_input selected bord @ page_footer,
      lib_calls = [qr_request user_input box bord]\<rparr>)"
  using assms by (simp add: main_def generating_def emits_def generate_qr_code_returns)

lemma main_example:
  assumes "py_strip user_input = []" "map_of size_mapping selected = Some box"
  shows "main env user_input selected bord =
    (Completed, \<lparr>out = page_top @ page_middle @
        [St_info ([0x1F446] @ ascii '' Enter some text above to generate your QR code''),
         St_markdown (ascii ''### Example'') False] @
        (case qrcode_lib env (qr_request example_text 10 4) of
           Inl e \<Rightarrow> [St_error (ascii ''Error generating QR code: '' @ e)]
         | Inr example_qr \<Rightarrow>
             [St_image (png_save env example_qr) (ascii ''Example QR Code'') (Width 300),
              St_caption (ascii ''This is what your QR code will look like'')]) @ page_footer,
      lib_calls = [qr_request example_text 10 4]\<rparr>)"
  using assms 
  by (cases "qrcode_lib env (qr_request example_text 10 4)")
     (simp_all add: main_def show_example_def emits_def generate_qr_code_returns generate_qr_code_raises)

lemma main_KeyError:
  "map_of size_mapping selected = None \<Longrightarrow>
   main env user_input selected bord =
     (KeyError selected, \<lparr>out = page_top @ [End_with], lib_calls = []\<rparr>)"
  by (simp add: main_def emits_def)

lemma size_mapping_lookups:
  "map_of size_mapping (ascii ''Small'') = Some 5"
  "map_of size_mapping (ascii ''Medium'') = Some 10"
  "map_of size_mapping (ascii ''Large'') = Some 15"
  "map_of size_mapping (ascii ''Extra Large'') = Some 20"
  by (simp_all add: size_mapping_def ascii_def)

lemma example_text_not_blank: "py_strip example_text \<noteq> []"
  by (simp add: py_strip_Nil_iff example_text_def ascii_def py_isspace_def)

lemma page_has_no_result:
  "\<not> list_ex is_image page_top" "\<not> list_ex is_image page_middle" "\<not> list_ex is_image page_footer"
  "\<not> list_ex is_download_link page_top" "\<not> list_ex is_download_link page_middle"
  "\<not> list_ex is_download_link page_footer"
  "\<not> list_ex is_input_preview page_top" "\<not> list_ex is_input_preview page_middle"
  "\<not> list_ex is_input_preview page_footer"
  by (simp_all add: page_top_def page_middle_def page_footer_def is_image_def is_download_link_def is_input_preview_def)

lemma handler_not_in_page:
  "set (except_handler e') \<inter> set page_top = {}"
  "set (except_handler e') \<inter> set page_middle = {}"
  "set (except_handler e') \<inter> set page_footer = {}"
  by (simp_all add: page_top_def page_middle_def page_footer_def except_handler_def)

lemma stub_refuses: "qrcode_lib stub_env (qr_request long_payload bsize bord) = Inl (ascii ''data overflow'')"
  by (simp add: stub_env_def qr_request_def long_payload_def ascii_def)

lemma long_payload_not_blank: "py_strip long_payload \<noteq> []"
  by (simp add: py_strip_Nil_iff long_payload_def ascii_def py_isspace_def)


lemma selectable_lookup:
  "selected \<in> set size_options \<Longrightarrow> \<exists>box. map_of size_mapping selected = Some box"
  by (auto simp add: size_options_def size_mapping_def)

lemma example_request:
  "qr_request example_text 10 4 =
     \<lparr>qr_version = 1, qr_error_correction = ERROR_CORRECT_L, qr_box_size = 10, qr_border = 4,
      qr_data = ascii ''Hello, World! This is a sample QR code.'', make_fit = True,
      fill_color = ascii ''black'', back_color = ascii ''white''\<rparr>"
  by (simp add: qr_request_def example_text_def)


lemma short_payload_accepted:
  "qrcode_lib stub_env (qr_request (ascii ''hi'') bsize bord) = Inr 2"
  by (simp add: stub_env_def qr_request_def ascii_def)

lemma short_payload_not_blank: "py_strip (ascii ''hi'') \<noteq> []"
  by (simp add: py_strip_Nil_iff ascii_def py_isspace_def)

lemma main_generating_calls:
  assumes "py_strip user_input \<noteq> []" "map_of size_mapping selected = Some box"
  shows "fst (main env user_input selected bord) = Completed \<and>
         lib_calls (snd (main env user_input selected bord)) = [qr_request user_input box bord]"
  using assms
  by (cases "qrcode_lib env (qr_request user_input box bord)")
     (simp_all add: main_failed main_displaying)

lemma dom_size_mapping: "dom (map_of size_mapping) = set size_options"
  by (simp add: dom_map_of_conv_image_fst size_mapping_def size_options_def)


lemma page_has_no_link:
  "filter is_download_link page_top = []" "filter is_download_link page_middle = []"
  "filter is_download_link page_footer = []"
  using page_has_no_result(4-6) by (simp_all add: filter_empty_conv list_ex_iff)

lemma displaying_link:
  "filter is_download_link (displaying env qr_img user_input selected bord) =
     [St_markdown (get_image_download_link env qr_img (download_filename selected)) True]"
  by (simp add: displaying_def is_download_link_def)

lemma download_filenames:
  "download_filename (ascii ''Small'') = ascii ''qrcode_small.png''"
  "download_filename (ascii ''Medium'') = ascii ''qrcode_medium.png''"
  "download_filename (ascii ''Large'') = ascii ''qrcode_large.png''"
  "download_filename (ascii ''Extra Large'') = ascii ''qrcode_extra large.png''"
  by (simp_all add: download_filename_def py_lower_def lower_char_def ascii_def)


lemma generate_qr_code_never_raises:
  "\<exists>v. fst (generate_qr_code env dat bsize bord s) = Inr v"
  by (cases "qrcode_lib env (qr_request dat bsize bord)")
     (simp_all add: generate_qr_code_raises generate_qr_code_returns)

lemma main_completes:
  assumes "selected \<in> set size_options"
  shows "fst (main env user_input selected bord) = Completed"
proof -
  from assms obtain box where t: "map_of size_mapping selected = Some box"
    using selectable_lookup by blast
  show ?thesis
  proof (cases "py_strip user_input = []")
    case True
    then show ?thesis by (simp add: main_example [OF _ t])
  next
    case False
    then show ?thesis by (simp add: main_generating_calls [OF _ t])
  qed
qed

lemma main_download_link:
  assumes "py_strip user_input \<noteq> []" "map_of size_mapping selected = Some box"
    "qrcode_lib env (qr_request user_input box bord) = Inr qr_img"
  shows "filter is_download_link (out (snd (main env user_input selected bord))) =
           [St_markdown (get_image_download_link env qr_img (download_filename selected)) True]"
  using assms
  by (simp add: main_displaying page_has_no_link displaying_link) (simp add: is_download_link_def)

section \<open>The claims\<close>

text \<open>
  C1, as stated, asks that \<open>generate_qr_code\<close> hand the failure of the encoder to its
  caller as an error carrying the library's message. It does not: where the stand-in
  library raises \<open>data overflow\<close>, the caller receives the value \<open>None\<close> and no error.
\<close>

theorem encoder_failure_counterexample:
  "qrcode_lib stub_env (qr_request long_payload 10 4) = Inl (ascii ''data overflow'') \<and>
   fst (generate_qr_code stub_env long_payload 10 4 fresh) = Inr None \<and>
   fst (generate_qr_code stub_env long_payload 10 4 fresh) \<noteq> Inl (ascii ''data overflow'')"
  by (simp add: stub_refuses generate_qr_code_raises)

text \<open>
  C1, amended: whenever the encoder fails with a message, \<open>generate_qr_code\<close> shows the
  banner \<open>Error generating QR code: \<close> followed by that message, and returns \<open>None\<close> to
  its caller, having called the library once. A render cycle on that payload runs to its
  end, its output contains the banner, and the library was called exactly once: nothing
  is swallowed without a message on the page, and nothing is tried again.
\<close>

theorem encoder_failure_displayed:
  assumes "qrcode_lib env (qr_request dat bsize bord) = Inl e"
  shows "fst (generate_qr_code env dat bsize bord s) = Inr None \<and>
         out (snd (generate_qr_code env dat bsize bord s)) =
           out s @ [St_error (ascii ''Error generating QR code: '' @ e)] \<and>
         lib_calls (snd (generate_qr_code env dat bsize bord s)) =
           lib_calls s @ [qr_request dat bsize bord] \<and>
         (py_strip dat \<noteq> [] \<and> map_of size_mapping selected = Some bsize \<longrightarrow>
            fst (main env dat selected bord) = Completed \<and>
            St_error (ascii ''Error generating QR code: '' @ e)
              \<in> set (out (snd (main env dat selected bord))) \<and>
            lib_calls (snd (main env dat selected bord)) = [qr_request dat bsize bord])"
  using assms by (simp add: generate_qr_code_raises main_failed)

text \<open>
  The amended C1 on the stand-in library, with the size \<open>Large\<close> and a border of 2.
\<close>

theorem encoder_failure_displayed_witness:
  "qrcode_lib stub_env (qr_request long_payload 15 2) = Inl (ascii ''data overflow'') \<and>
   py_strip long_payload \<noteq> [] \<and> map_of size_mapping (ascii ''Large'') = Some 15 \<and>
   fst (generate_qr_code stub_env long_payload 15 2 fresh) = Inr None \<and>
   fst (main stub_env long_payload (ascii ''Large'') 2) = Completed \<and>
   St_error (ascii ''Error generating QR code: data overflow'')
     \<in> set (out (snd (main stub_env long_payload (ascii ''Large'') 2))) \<and>
   length (lib_calls (snd (main stub_env long_payload (ascii ''Large'') 2))) = 1"
proof -
  have f: "qrcode_lib stub_env (qr_request long_payload 15 2) = Inl (ascii ''data overflow'')"
    by (rule stub_refuses)
  have n: "py_strip long_payload \<noteq> []"
    by (rule long_payload_not_blank)
  have t: "map_of size_mapping (ascii ''Large'') = Some 15"
    by (rule size_mapping_lookups)
  note c = encoder_failure_displayed [OF f, of fresh "ascii ''Large''"]
  have a: "ascii ''Error generating QR code: '' @ ascii ''data overflow''
             = ascii ''Error generating QR code: data overflow''"
    by (simp add: ascii_def)
  from c n t a show ?thesis
    using f by simp
qed

text \<open>
  C2: for every payload that is empty or consists of white space only, and every
  selectable size, the encoder is never invoked on the payload: no call to the library
  in the render cycle carries the payload of the user, or any blank text. The page shows
  the example state instead: the placeholder line and the heading of the example,
  followed by the fixed example, which is the one call the cycle makes to the library
  (the example sentence, box size 10, border 4), shown as the example image with its
  caption, or as the error banner of \<open>generate_qr_code\<close> if the library raises on it.
\<close>

theorem blank_payload_shows_example:
  assumes "\<forall>c\<in>set user_input. py_isspace c" and "selected \<in> set size_options"
  shows "fst (main env user_input selected bord) = Completed \<and>
         lib_calls (snd (main env user_input selected bord)) = [qr_request example_text 10 4] \<and>
         (\<forall>c\<in>set (lib_calls (snd (main env user_input selected bord))). qr_data c \<noteq> user_input) \<and>
         (\<forall>c\<in>set (lib_calls (snd (main env user_input selected bord))).
            py_strip (qr_data c) \<noteq> []) \<and>
         out (snd (main env user_input selected bord)) =
           page_top @ page_middle @
           [St_info ([0x1F446] @ ascii '' Enter some text above to generate your QR code''),
            St_markdown (ascii ''### Example'') False] @
           (case qrcode_lib env (qr_request example_text 10 4) of
              Inl e \<Rightarrow> [St_error (ascii ''Error generating QR code: '' @ e)]
            | Inr example_qr \<Rightarrow>
                [St_image (png_save env example_qr) (ascii ''Example QR Code'') (Width 300),
                 St_caption (ascii ''This is what your QR code will look like'')]) @
           page_footer"
proof -
  from assms(1) have b: "py_strip user_input = []"
    by (simp add: py_strip_Nil_iff)
  from assms(2) obtain box where t: "map_of size_mapping selected = Some box"
    using selectable_lookup by blast
  have d: "example_text \<noteq> user_input"
    using b example_text_not_blank by auto
  have n: "py_strip (qr_data (qr_request example_text 10 4)) \<noteq> []"
    using example_text_not_blank by (simp add: qr_request_def)
  have m: "lib_calls (snd (main env user_input selected bord)) = [qr_request example_text 10 4]"
    by (simp add: main_example [OF b t])
  show ?thesis
    using d n unfolding m by (simp add: main_example [OF b t]) (simp add: qr_request_def)
qed

text \<open>
  C2 on a payload of two spaces, with the size \<open>Small\<close>: the one call to the library
  carries the example sentence.
\<close>

theorem blank_payload_shows_example_witness:
  "list_all py_isspace (ascii ''  '') \<and> ascii ''Small'' \<in> set size_options \<and>
   fst (main stub_env (ascii ''  '') (ascii ''Small'') 7) = Completed \<and>
   map qr_data (lib_calls (snd (main stub_env (ascii ''  '') (ascii ''Small'') 7))) =
     [ascii ''Hello, World! This is a sample QR code.''] \<and>
   list_ex is_image (out (snd (main stub_env (ascii ''  '') (ascii ''Small'') 7)))"
proof -
  have w: "\<forall>c\<in>set (ascii ''  ''). py_isspace c"
    by (simp add: ascii_def py_isspace_def)
  have l: "ascii ''Small'' \<in> set size_options"
    by (simp add: size_options_def)
  note c = blank_payload_shows_example [OF w l, of stub_env 7]
  have r: "qrcode_lib stub_env (qr_request example_text 10 4) = Inr 39"
    by (simp add: stub_env_def qr_request_def example_text_def ascii_def)
  from c r have "list_ex is_image (out (snd (main stub_env (ascii ''  '') (ascii ''Small'') 7)))"
    by (simp add: is_image_def)
  with c w l show ?thesis
    by (simp add: example_request list_all_iff)
qed

text \<open>
  C3: whenever the QR library raises inside \<open>generate_qr_code\<close>, the function catches the
  exception, shows the error banner itself and returns \<open>None\<close> instead of raising. The
  render cycle of \<open>main\<close> then consists of the page, the spinner with that banner and
  the footer: the handler of \<open>main\<close> (its error line and its hint to check the input
  and try again) shows nothing, whatever message it would carry, and neither the image,
  the download link nor the preview of the input is shown.
\<close>

theorem generate_qr_code_catches:
  assumes "qrcode_lib env (qr_request dat bsize bord) = Inl e"
  shows "generate_qr_code env dat bsize bord s =
           (Inr None, \<lparr>out = out s @ [St_error (ascii ''Error generating QR code: '' @ e)],
                       lib_calls = lib_calls s @ [qr_request dat bsize bord]\<rparr>) \<and>
         (py_strip dat \<noteq> [] \<and> map_of size_mapping selected = Some bsize \<longrightarrow>
            main env dat selected bord =
              (Completed,
               \<lparr>out = page_top @ page_middle @
                   [With_spinner (ascii ''Generating QR code...''),
                    St_error (ascii ''Error generating QR code: '' @ e), End_with] @ page_footer,
                lib_calls = [qr_request dat bsize bord]\<rparr>) \<and>
            set (except_handler e') \<inter> set (out (snd (main env dat selected bord))) = {} \<and>
            \<not> list_ex is_image (out (snd (main env dat selected bord))) \<and>
            \<not> list_ex is_download_link (out (snd (main env dat selected bord))) \<and>
            \<not> list_ex is_input_preview (out (snd (main env dat selected bord))))"
proof (intro conjI impI)
  show "generate_qr_code env dat bsize bord s =
           (Inr None, \<lparr>out = out s @ [St_error (ascii ''Error generating QR code: '' @ e)],
                       lib_calls = lib_calls s @ [qr_request dat bsize bord]\<rparr>)"
    using assms by (rule generate_qr_code_raises)
next
  assume h: "py_strip dat \<noteq> [] \<and> map_of size_mapping selected = Some bsize"
  then have m: "main env dat selected bord =
              (Completed,
               \<lparr>out = page_top @ page_middle @
                   [With_spinner (ascii ''Generating QR code...''),
                    St_error (ascii ''Error generating QR code: '' @ e), End_with] @ page_footer,
                lib_calls = [qr_request dat bsize bord]\<rparr>)"
    using assms by (simp add: main_failed)
  show "main env dat selected bord =
              (Completed,
               \<lparr>out = page_top @ page_middle @
                   [With_spinner (ascii ''Generating QR code...''),
                    St_error (ascii ''Error generating QR code: '' @ e), End_with] @ page_footer,
                lib_calls = [qr_request dat bsize bord]\<rparr>)"
    by (rule m)
  show "set (except_handler e') \<inter> set (out (snd (main env dat selected bord))) = {}"
    by (simp add: m Int_Un_distrib handler_not_in_page) (simp add: except_handler_def ascii_def)
  show "\<not> list_ex is_image (out (snd (main env dat selected bord)))"
    by (simp add: m page_has_no_result) (simp add: is_image_def)
  show "\<not> list_ex is_download_link (out (snd (main env dat selected bord)))"
    by (simp add: m page_has_no_result) (simp add: is_download_link_def)
  show "\<not> list_ex is_input_preview (out (snd (main env dat selected bord)))"
    by (simp add: m page_has_no_result) (simp add: is_input_preview_def)
qed

text \<open>
  C3 on the stand-in library, with a payload beyond its capacity and the size \<open>Medium\<close>.
\<close>

theorem generate_qr_code_catches_witness:
  "qrcode_lib stub_env (qr_request long_payload 10 4) = Inl (ascii ''data overflow'') \<and>
   py_strip long_payload \<noteq> [] \<and> map_of size_mapping (ascii ''Medium'') = Some 10 \<and>
   fst (generate_qr_code stub_env long_payload 10 4 fresh) = Inr None \<and>
   out (snd (generate_qr_code stub_env long_payload 10 4 fresh)) =
     [St_error (ascii ''Error generating QR code: data overflow'')] \<and>
   fst (main stub_env long_payload (ascii ''Medium'') 4) = Completed \<and>
   St_info (ascii ''Please check your input and try again.'')
     \<notin> set (out (snd (main stub_env long_payload (ascii ''Medium'') 4))) \<and>
   \<not> list_ex is_image (out (snd (main stub_env long_payload (ascii ''Medium'') 4)))"
proof -
  have f: "qrcode_lib stub_env (qr_request long_payload 10 4) = Inl (ascii ''data overflow'')"
    by (rule stub_refuses)
  have n: "py_strip long_payload \<noteq> []"
    by (rule long_payload_not_blank)
  have t: "map_of size_mapping (ascii ''Medium'') = Some 10"
    by (rule size_mapping_lookups)
  note c = generate_qr_code_catches [OF f, of fresh "ascii ''Medium''" "[]"]
  from c n t have "set (except_handler []) \<inter> set (out (snd (main stub_env long_payload (ascii ''Medium'') 4))) = {}"
    by blast
  then have h: "St_info (ascii ''Please check your input and try again.'')
     \<notin> set (out (snd (main stub_env long_payload (ascii ''Medium'') 4)))"
    by (simp add: except_handler_def)
  from c n t have i: "\<not> list_ex is_image (out (snd (main stub_env long_payload (ascii ''Medium'') 4)))"
    by blast
  from c n t have m: "fst (main stub_env long_payload (ascii ''Medium'') 4) = Completed"
    by simp
  from c have g: "fst (generate_qr_code stub_env long_payload 10 4 fresh) = Inr None"
    "out (snd (generate_qr_code stub_env long_payload 10 4 fresh)) =
     [St_error (ascii ''Error generating QR code: data overflow'')]"
    by (simp_all add: fresh_def ascii_def)
  from f n t g h i m show ?thesis by blast
qed

text \<open>
  C4: the dictionary \<open>size_mapping\<close> has the four entries \<open>Small\<close> 5, \<open>Medium\<close> 10,
  \<open>Large\<close> 15 and \<open>Extra Large\<close> 20, its keys are the options of the select box in
  their order, and for every selectable label the lookup succeeds and the box size that
  reaches the encoder is the value of the table for that label.
\<close>

theorem size_mapping_table:
  "map_of size_mapping (ascii ''Small'') = Some 5 \<and>
   map_of size_mapping (ascii ''Medium'') = Some 10 \<and>
   map_of size_mapping (ascii ''Large'') = Some 15 \<and>
   map_of size_mapping (ascii ''Extra Large'') = Some 20 \<and>
   length size_mapping = 4 \<and>
   map fst size_mapping = size_options \<and>
   (\<forall>selected\<in>set size_options.
      \<exists>box. map_of size_mapping selected = Some box \<and>
        (py_strip user_input \<noteq> [] \<longrightarrow>
           fst (main env user_input selected bord) = Completed \<and>
           map qr_box_size (lib_calls (snd (main env user_input selected bord))) = [box]))"
proof (intro conjI ballI)
  fix selected assume "selected \<in> set size_options"
  then obtain box where t: "map_of size_mapping selected = Some box"
    using selectable_lookup by blast
  have h: "py_strip user_input \<noteq> [] \<longrightarrow>
           fst (main env user_input selected bord) = Completed \<and>
           map qr_box_size (lib_calls (snd (main env user_input selected bord))) = [box]"
    using main_generating_calls [OF _ t, of user_input env bord]
    by (simp add: qr_request_def)
  show "\<exists>box. map_of size_mapping selected = Some box \<and>
        (py_strip user_input \<noteq> [] \<longrightarrow>
           fst (main env user_input selected bord) = Completed \<and>
           map qr_box_size (lib_calls (snd (main env user_input selected bord))) = [box])"
    by (rule exI [of _ box]) (simp add: t h)
qed (simp_all add: size_mapping_lookups, simp_all add: size_mapping_def size_options_def)

text \<open>
  C4 on the label \<open>Extra Large\<close>: the encoder is called with box size 20.
\<close>

theorem size_mapping_table_witness:
  "ascii ''Extra Large'' \<in> set size_options \<and> py_strip (ascii ''hi'') \<noteq> [] \<and>
   map_of size_mapping (ascii ''Extra Large'') = Some 20 \<and>
   fst (main stub_env (ascii ''hi'') (ascii ''Extra Large'') 4) = Completed \<and>
   map qr_box_size (lib_calls (snd (main stub_env (ascii ''hi'') (ascii ''Extra Large'') 4))) = [20]"
proof -
  have l: "ascii ''Extra Large'' \<in> set size_options"
    by (simp add: size_options_def)
  have n: "py_strip (ascii ''hi'') \<noteq> []"
    by (rule short_payload_not_blank)
  note c = size_mapping_table [of "ascii ''hi''" stub_env 4]
  from c have t: "map_of size_mapping (ascii ''Extra Large'') = Some 20"
    by blast
  from c l n t have "fst (main stub_env (ascii ''hi'') (ascii ''Extra Large'') 4) = Completed \<and>
    map qr_box_size (lib_calls (snd (main stub_env (ascii ''hi'') (ascii ''Extra Large'') 4))) = [20]"
    by fastforce
  with l n t show ?thesis by blast
qed

text \<open>
  C5: on the empty payload, for every selectable size and every border, the encoder is
  called once with the payload \<open>Hello, World! This is a sample QR code.\<close>, box size 10
  and border 4, and the image it returns is shown with the caption of the example and a
  width of 300.
\<close>

theorem empty_payload_renders_example:
  assumes "selected \<in> set size_options"
    and "qrcode_lib env (qr_request example_text 10 4) = Inr example_qr"
  shows "main env [] selected bord =
           (Completed,
            \<lparr>out = page_top @ page_middle @
               [St_info ([0x1F446] @ ascii '' Enter some text above to generate your QR code''),
                St_markdown (ascii ''### Example'') False,
                St_image (png_save env example_qr) (ascii ''Example QR Code'') (Width 300),
                St_caption (ascii ''This is what your QR code will look like'')] @ page_footer,
             lib_calls =
               [\<lparr>qr_version = 1, qr_error_correction = ERROR_CORRECT_L, qr_box_size = 10,
                 qr_border = 4, qr_data = ascii ''Hello, World! This is a sample QR code.'',
                 make_fit = True, fill_color = ascii ''black'', back_color = ascii ''white''\<rparr>]\<rparr>)"
proof -
  have b: "py_strip [] = []"
    by (simp add: py_strip_def)
  from assms(1) obtain box where t: "map_of size_mapping selected = Some box"
    using selectable_lookup by blast
  show ?thesis
    using assms(2) by (simp add: main_example [OF b t] example_request [symmetric])
qed

text \<open>
  C5 on the stand-in library, whose image of the example is the number 39.
\<close>

theorem empty_payload_renders_example_witness:
  "ascii ''Medium'' \<in> set size_options \<and>
   qrcode_lib stub_env (qr_request example_text 10 4) = Inr 39 \<and>
   fst (main stub_env [] (ascii ''Medium'') 4) = Completed \<and>
   St_image [0x89, 0x50, 0x4E, 0x47, 39] (ascii ''Example QR Code'') (Width 300)
     \<in> set (out (snd (main stub_env [] (ascii ''Medium'') 4))) \<and>
   map qr_box_size (lib_calls (snd (main stub_env [] (ascii ''Medium'') 4))) = [10] \<and>
   map qr_border (lib_calls (snd (main stub_env [] (ascii ''Medium'') 4))) = [4]"
proof -
  have l: "ascii ''Medium'' \<in> set size_options"
    by (simp add: size_options_def)
  have r: "qrcode_lib stub_env (qr_request example_text 10 4) = Inr 39"
    by (simp add: stub_env_def qr_request_def example_text_def ascii_def)
  have p: "png_save stub_env 39 = [0x89, 0x50, 0x4E, 0x47, 39]"
    by (simp add: stub_env_def)
  note c = empty_payload_renders_example [OF l r, of 4]
  from l r show ?thesis
    by (simp add: c p)
qed

text \<open>
  C6: for every image and file name, \<open>get_image_download_link\<close> returns the anchor whose
  \<open>href\<close> is the data URI of the base64 text of the image's PNG bytes and whose
  \<open>download\<close> attribute is the file name; when a payload has been encoded, the one link
  on the page is that anchor for the file name \<open>qrcode_\<close>, the selected label in lower
  case, \<open>.png\<close>; and for the four selectable labels that file name is
  \<open>qrcode_small.png\<close>, \<open>qrcode_medium.png\<close>, \<open>qrcode_large.png\<close> and
  \<open>qrcode_extra large.png\<close>.
\<close>

theorem download_link_format:
  \<open>get_image_download_link env img filename =
     ascii ''<a href="data:image/png;base64,'' @ b64encode env (png_save env img) @
     ascii ''" download="'' @ filename @ ascii ''">Download QR Code</a>'' \<and>
   (py_strip user_input \<noteq> [] \<and> map_of size_mapping selected = Some box \<and>
    qrcode_lib env (qr_request user_input box bord) = Inr qr_img \<longrightarrow>
      filter is_download_link (out (snd (main env user_input selected bord))) =
        [St_markdown
           (get_image_download_link env qr_img (ascii ''qrcode_'' @ py_lower selected @ ascii ''.png''))
           True]) \<and>
   map fst
     [(ascii ''Small'', ascii ''qrcode_small.png''), (ascii ''Medium'', ascii ''qrcode_medium.png''),
      (ascii ''Large'', ascii ''qrcode_large.png''),
      (ascii ''Extra Large'', ascii ''qrcode_extra large.png'')] = size_options \<and>
   (\<forall>(label, name) \<in> set
       [(ascii ''Small'', ascii ''qrcode_small.png''), (ascii ''Medium'', ascii ''qrcode_medium.png''),
        (ascii ''Large'', ascii ''qrcode_large.png''),
        (ascii ''Extra Large'', ascii ''qrcode_extra large.png'')].
      ascii ''qrcode_'' @ py_lower label @ ascii ''.png'' = name \<and>
      (\<forall>b. py_strip user_input \<noteq> [] \<and> map_of size_mapping label = Some b \<and>
            qrcode_lib env (qr_request user_input b bord) = Inr qr_img \<longrightarrow>
         filter is_download_link (out (snd (main env user_input label bord))) =
           [St_markdown
              (ascii ''<a href="data:image/png;base64,'' @ b64encode env (png_save env qr_img) @
               ascii ''" download="'' @ name @ ascii ''">Download QR Code</a>'')
              True]))\<close>
proof -
  have anchor: \<open>get_image_download_link env i f =
     ascii ''<a href="data:image/png;base64,'' @ b64encode env (png_save env i) @
     ascii ''" download="'' @ f @ ascii ''">Download QR Code</a>''\<close> for i f
    by (simp add: get_image_download_link_def)
  have link: "filter is_download_link (out (snd (main env user_input l bord))) =
        [St_markdown (get_image_download_link env qr_img (download_filename l)) True]"
    if "py_strip user_input \<noteq> []" and "map_of size_mapping l = Some b"
      and "qrcode_lib env (qr_request user_input b bord) = Inr qr_img" for l b
    using that by (rule main_download_link)
  have names: "download_filename label = name"
    if "(label, name) \<in> set
       [(ascii ''Small'', ascii ''qrcode_small.png''), (ascii ''Medium'', ascii ''qrcode_medium.png''),
        (ascii ''Large'', ascii ''qrcode_large.png''),
        (ascii ''Extra Large'', ascii ''qrcode_extra large.png'')]" for label name
    using that download_filenames by auto
  have general: "py_strip user_input \<noteq> [] \<and> map_of size_mapping selected = Some box \<and>
    qrcode_lib env (qr_request user_input box bord) = Inr qr_img \<longrightarrow>
      filter is_download_link (out (snd (main env user_input selected bord))) =
        [St_markdown
           (get_image_download_link env qr_img (ascii ''qrcode_'' @ py_lower selected @ ascii ''.png''))
           True]"
    using link [of selected box] by (simp add: download_filename_def)
  have keys: "map fst
     [(ascii ''Small'', ascii ''qrcode_small.png''), (ascii ''Medium'', ascii ''qrcode_medium.png''),
      (ascii ''Large'', ascii ''qrcode_large.png''),
      (ascii ''Extra Large'', ascii ''qrcode_extra large.png'')] = size_options"
    by (simp add: size_options_def)
  have table: \<open>ascii ''qrcode_'' @ py_lower label @ ascii ''.png'' = name \<and>
      (\<forall>b. py_strip user_input \<noteq> [] \<and> map_of size_mapping label = Some b \<and>
            qrcode_lib env (qr_request user_input b bord) = Inr qr_img \<longrightarrow>
         filter is_download_link (out (snd (main env user_input label bord))) =
           [St_markdown
              (ascii ''<a href="data:image/png;base64,'' @ b64encode env (png_save env qr_img) @
               ascii ''" download="'' @ name @ ascii ''">Download QR Code</a>'')
              True])\<close>
    if p: "(label, name) \<in> set
       [(ascii ''Small'', ascii ''qrcode_small.png''), (ascii ''Medium'', ascii ''qrcode_medium.png''),
        (ascii ''Large'', ascii ''qrcode_large.png''),
        (ascii ''Extra Large'', ascii ''qrcode_extra large.png'')]" for label name
  proof (intro conjI allI impI)
    show "ascii ''qrcode_'' @ py_lower label @ ascii ''.png'' = name"
      using names [OF p] by (simp add: download_filename_def)
  next
    fix b
    assume "py_strip user_input \<noteq> [] \<and> map_of size_mapping label = Some b \<and>
            qrcode_lib env (qr_request user_input b bord) = Inr qr_img"
    then have "filter is_download_link (out (snd (main env user_input label bord))) =
        [St_markdown (get_image_download_link env qr_img (download_filename label)) True]"
      using link [of label b] by blast
    then show \<open>filter is_download_link (out (snd (main env user_input label bord))) =
           [St_markdown
              (ascii ''<a href="data:image/png;base64,'' @ b64encode env (png_save env qr_img) @
               ascii ''" download="'' @ name @ ascii ''">Download QR Code</a>'')
              True]\<close>
      by (simp only: names [OF p] anchor)
  qed
  from anchor general keys table show ?thesis
    by blast
qed

text \<open>
  C6 on the label \<open>Extra Large\<close>: the file name is \<open>qrcode_extra large.png\<close>.
\<close>

theorem download_link_format_witness:
  \<open>py_strip (ascii ''hi'') \<noteq> [] \<and> map_of size_mapping (ascii ''Extra Large'') = Some 20 \<and>
   qrcode_lib stub_env (qr_request (ascii ''hi'') 20 4) = Inr 2 \<and>
   ascii ''qrcode_'' @ py_lower (ascii ''Extra Large'') @ ascii ''.png'' = ascii ''qrcode_extra large.png'' \<and>
   filter is_download_link (out (snd (main stub_env (ascii ''hi'') (ascii ''Extra Large'') 4))) =
     [St_markdown
        (ascii ''<a href="data:image/png;base64,HCATC" download="qrcode_extra large.png">Download QR Code</a>'')
        True]\<close>
proof -
  have n: "py_strip (ascii ''hi'') \<noteq> []"
    by (rule short_payload_not_blank)
  have t: "map_of size_mapping (ascii ''Extra Large'') = Some 20"
    by (rule size_mapping_lookups)
  have r: "qrcode_lib stub_env (qr_request (ascii ''hi'') 20 4) = Inr 2"
    by (rule short_payload_accepted)
  note c = download_link_format [of stub_env 2 "[]" "ascii ''hi''" "ascii ''Extra Large''" 20 4 2]
  have b: "b64encode stub_env (png_save stub_env 2) = ascii ''HCATC''"
    by (simp add: stub_env_def ascii_def)
  have a: \<open>ascii ''<a href="data:image/png;base64,'' @ ascii ''HCATC'' @
     ascii ''" download="'' @ ascii ''qrcode_extra large.png'' @ ascii ''">Download QR Code</a>''
     = ascii ''<a href="data:image/png;base64,HCATC" download="qrcode_extra large.png">Download QR Code</a>''\<close>
    by (simp add: ascii_def)
  from c have e: \<open>ascii ''qrcode_'' @ py_lower (ascii ''Extra Large'') @ ascii ''.png'' =
        ascii ''qrcode_extra large.png'' \<and>
      (\<forall>b. py_strip (ascii ''hi'') \<noteq> [] \<and> map_of size_mapping (ascii ''Extra Large'') = Some b \<and>
            qrcode_lib stub_env (qr_request (ascii ''hi'') b 4) = Inr 2 \<longrightarrow>
         filter is_download_link (out (snd (main stub_env (ascii ''hi'') (ascii ''Extra Large'') 4))) =
           [St_markdown
              (ascii ''<a href="data:image/png;base64,'' @ b64encode stub_env (png_save stub_env 2) @
               ascii ''" download="'' @ ascii ''qrcode_extra large.png'' @ ascii ''">Download QR Code</a>'')
              True])\<close>
    by simp
  with n t r have \<open>filter is_download_link (out (snd (main stub_env (ascii ''hi'') (ascii ''Extra Large'') 4))) =
           [St_markdown
              (ascii ''<a href="data:image/png;base64,'' @ b64encode stub_env (png_save stub_env 2) @
               ascii ''" download="'' @ ascii ''qrcode_extra large.png'' @ ascii ''">Download QR Code</a>'')
              True]\<close>
    by blast
  with e n t r show ?thesis
    by (simp only: b a simp_thms)
qed

end
